theory Spec2Isabelle
  imports Complex_Main "HOL-Library.Sublist"
begin

section \<open>Data model\<close>

text \<open>
  The interfaces of the planner, one record per TypeScript interface. A field typed
  \<^verbatim>\<open>number\<close> that the response schema declares as an integer (stops, day, quantity) is
  an \<^typ>\<open>int\<close>; the other numbers (prices, costs, coordinates) are finite doubles and
  are kept as the rationals they are equal to. The field \<^verbatim>\<open>class\<close> is written \<open>class'\<close>.
\<close>

record Flight =
  airline :: string
  stops :: int
  price :: rat
  class' :: string

record Location =
  city :: string
  lat :: rat
  lng :: rat

record ChecklistItem =
  task :: string
  details :: string
  completed :: bool

record PackingItem =
  item :: string
  quantity :: int
  packed :: bool

record PackingCategory =
  category :: string
  items :: "PackingItem list"

record WeatherInfo =
  destination :: string
  avg_temp_celsius :: rat
  forecast_summary :: string

record FoodRecommendation =
  name :: string
  description :: string

record DailyPlan =
  day :: int
  activity :: string

text \<open>
  \<^verbatim>\<open>imageUrl?: string | 'loading' | null\<close>: the key may be absent (\<open>Absent\<close>, read as
  \<^verbatim>\<open>undefined\<close>), hold \<^verbatim>\<open>null\<close>, or hold a string; the pending marker is the string
  \<^verbatim>\<open>'loading'\<close>.
\<close>

datatype imageUrl = Absent | Null | Str string

record ItineraryDestination =
  destination_name :: string
  destination_summary :: string
  daily_plan :: "DailyPlan list"
  transport_tips :: string
  safety_tips :: string
  food_recommendations :: "FoodRecommendation list"
  imageUrl :: imageUrl

record CostDetails =
  accommodation :: rat
  food :: rat
  activities :: rat
  transport :: rat
  total_without_flights :: rat

record Plan =
  itinerary :: "ItineraryDestination list"
  costs :: CostDetails
  checklist :: "ChecklistItem list"
  flights :: "Flight list"
  locations :: "Location list"
  weather :: "WeatherInfo list"
  packing_list :: "PackingCategory list"

text \<open>
  \<^verbatim>\<open>TripDetails\<close>; \<^verbatim>\<open>type\<close> and \<^verbatim>\<open>class\<close> are written \<open>type'\<close> and \<open>cabin\<close>.
  \<^verbatim>\<open>prediction: number | string\<close> is a sum. So are the two passenger counts: they are
  declared as numbers and start as numbers, but \<^verbatim>\<open>handleInputChange\<close> stores the text
  of the input in them, so at run time they hold a number (\<open>Inl\<close>) or a string (\<open>Inr\<close>).
\<close>

record TripDetails =
  prediction :: "int + string"
  type' :: string
  origin :: string
  destinations :: "string list"
  adults :: "int + string"
  children :: "int + string"
  startDate :: string
  endDate :: string
  cabin :: string
  stopover :: bool
  tripType :: string

text \<open>\<^verbatim>\<open>HistoryItem { id, title, details }\<close>, the fields prefixed with \<open>h_\<close>.\<close>

record HistoryItem =
  h_id :: string
  h_title :: string
  h_details :: TripDetails

text \<open>The filter state \<^verbatim>\<open>{ airline, stops, maxPrice }\<close>: three strings.\<close>

record Filters =
  f_airline :: string
  f_stops :: string
  maxPrice :: string

section \<open>The built-ins \<^verbatim>\<open>Number\<close> and \<^verbatim>\<open>String\<close>\<close>

text \<open>
  A number of the program is a double. The finite ones are kept as the rationals they are
  equal to, so a \<^verbatim>\<open>number\<close> field of a record above holds the value of a double, and
  comparing two of them is comparing the rationals. The result of a conversion can also be
  NaN or an infinity.
\<close>

datatype number = NaN | Fin rat | PosInf | NegInf

text \<open>The comparison \<^verbatim>\<open>a <= b\<close> on numbers: false as soon as one side is NaN.\<close>

fun num_le :: "number \<Rightarrow> number \<Rightarrow> bool" where
  "num_le NaN _ = False"
| "num_le _ NaN = False"
| "num_le (Fin a) (Fin b) = (a \<le> b)"
| "num_le NegInf _ = True"
| "num_le _ PosInf = True"
| "num_le _ _ = False"

text \<open>
  Rounding to the nearest double, ties to even. \<open>bitLength n\<close> is the number of binary
  digits of a positive integer. \<open>toDouble a b\<close> is the double nearest to \<open>a / b\<close> for
  \<open>0 \<le> a\<close> and \<open>0 < b\<close>: with \<open>l\<close> the binary exponent of the quotient, the quotient
  is rounded to a multiple of \<open>2\<^sup>e\<close> where \<open>e = l - 52\<close>, or \<open>- 1074\<close> for the
  subnormal numbers; a result of \<open>2\<^sup>1\<^sup>0\<^sup>2\<^sup>4\<close> or more is Infinity.
\<close>

function bitLength :: "int \<Rightarrow> int" where
  "bitLength n = (if n \<le> 0 then 0 else 1 + bitLength (n div 2))"
  by pat_completeness auto
termination
  by (relation "measure nat") auto

definition roundHalfEven :: "int \<Rightarrow> int \<Rightarrow> int" where
  "roundHalfEven n d =
     (let m = n div d; r = n mod d in
      if 2 * r < d then m
      else if d < 2 * r then m + 1
      else if even m then m else m + 1)"

definition scale2 :: "int \<Rightarrow> int \<Rightarrow> rat" where
  "scale2 m e = (if 0 \<le> e then of_int (m * 2 ^ nat e) else of_int m / of_int (2 ^ nat (- e)))"

definition toDouble :: "int \<Rightarrow> int \<Rightarrow> number" where
  "toDouble a b =
     (if a = 0 then Fin 0
      else
        let k = bitLength a - bitLength b;
            l = (if (if 0 \<le> k then b * 2 ^ nat k \<le> a else b \<le> a * 2 ^ nat (- k))
                 then k else k - 1);
            e = max (l - 52) (- 1074);
            m = (if 0 \<le> e then roundHalfEven a (b * 2 ^ nat e)
                 else roundHalfEven (a * 2 ^ nat (- e)) b)
        in if 971 < e \<or> (e = 971 \<and> 2 ^ 53 \<le> m) then PosInf
           else Fin (scale2 m e))"

text \<open>
  \<^verbatim>\<open>Number(s)\<close> on a string follows the StringToNumber grammar of ECMAScript: white space
  is trimmed, the empty text is 0, then either a hexadecimal, octal or binary integer
  (\<^verbatim>\<open>0x\<close>, \<^verbatim>\<open>0o\<close>, \<^verbatim>\<open>0b\<close>, unsigned) or an optionally signed decimal (digits, an
  optional fraction, an optional exponent, or \<^verbatim>\<open>Infinity\<close>); anything else is NaN.
  The value is the double nearest to the number the text denotes. A string is the list of
  the bytes of its UTF-8 form; \<open>whiteSpace\<close> lists the white space and line terminator
  characters of the grammar in that form (tab, line feed, vertical tab, form feed, carriage
  return, space, U+00A0, U+1680, U+2000 to U+200A, U+2028, U+2029, U+202F, U+205F, U+3000,
  U+FEFF), and \<open>strip\<close> removes them from the front of a text.
\<close>

definition whiteSpace :: "string list" where
  "whiteSpace =
     [[CHR 0x09], [CHR 0x0A], [CHR 0x0B], [CHR 0x0C], [CHR 0x0D], [CHR 0x20],
      [CHR 0xC2, CHR 0xA0], [CHR 0xE1, CHR 0x9A, CHR 0x80],
      [CHR 0xE2, CHR 0x80, CHR 0x80], [CHR 0xE2, CHR 0x80, CHR 0x81],
      [CHR 0xE2, CHR 0x80, CHR 0x82], [CHR 0xE2, CHR 0x80, CHR 0x83],
      [CHR 0xE2, CHR 0x80, CHR 0x84], [CHR 0xE2, CHR 0x80, CHR 0x85],
      [CHR 0xE2, CHR 0x80, CHR 0x86], [CHR 0xE2, CHR 0x80, CHR 0x87],
      [CHR 0xE2, CHR 0x80, CHR 0x88], [CHR 0xE2, CHR 0x80, CHR 0x89],
      [CHR 0xE2, CHR 0x80, CHR 0x8A], [CHR 0xE2, CHR 0x80, CHR 0xA8],
      [CHR 0xE2, CHR 0x80, CHR 0xA9], [CHR 0xE2, CHR 0x80, CHR 0xAF],
      [CHR 0xE2, CHR 0x81, CHR 0x9F], [CHR 0xE3, CHR 0x80, CHR 0x80],
      [CHR 0xEF, CHR 0xBB, CHR 0xBF]]"

fun strip :: "string list \<Rightarrow> string \<Rightarrow> string" where
  "strip ws [] = []"
| "strip ws (c # cs) =
     (case find (\<lambda>w. w \<noteq> [] \<and> prefix w (c # cs)) ws of
        None \<Rightarrow> c # cs
      | Some w \<Rightarrow> strip ws (drop (length w - 1) cs))"

definition trim :: "string \<Rightarrow> string" where
  "trim s = rev (strip (map rev whiteSpace) (rev (strip whiteSpace s)))"

definition digitValue :: "char \<Rightarrow> int option" where
  "digitValue c =
     (let n = (of_char c :: int) in
      if 48 \<le> n \<and> n \<le> 57 then Some (n - 48)
      else if 97 \<le> n \<and> n \<le> 102 then Some (n - 87)
      else if 65 \<le> n \<and> n \<le> 70 then Some (n - 55)
      else None)"

definition isDigitIn :: "int \<Rightarrow> char \<Rightarrow> bool" where
  "isDigitIn radix c = (case digitValue c of None \<Rightarrow> False | Some d \<Rightarrow> d < radix)"

definition digitsValue :: "int \<Rightarrow> string \<Rightarrow> int" where
  "digitsValue radix ds =
     foldl (\<lambda>a c. radix * a + (case digitValue c of None \<Rightarrow> 0 | Some d \<Rightarrow> d)) 0 ds"

definition exponentPart :: "string \<Rightarrow> int option" where
  "exponentPart s =
     (case s of
        [] \<Rightarrow> Some 0
      | c # r \<Rightarrow>
          if c = CHR ''e'' \<or> c = CHR ''E'' then
            (let (neg, ds) = (case r of
                                [] \<Rightarrow> (False, [])
                              | d # r' \<Rightarrow> if d = CHR ''-'' then (True, r')
                                           else if d = CHR ''+'' then (False, r')
                                           else (False, r))
             in if ds \<noteq> [] \<and> list_all (isDigitIn 10) ds
                then Some (if neg then - digitsValue 10 ds else digitsValue 10 ds)
                else None)
          else None)"

text \<open>
  The digits before and after the point give the integer \<open>ip @ fp\<close>, to be scaled by ten
  to the exponent less the number of digits after the point.
\<close>

definition unsignedDecimal :: "string \<Rightarrow> number" where
  "unsignedDecimal s =
     (if s = ''Infinity'' then PosInf
      else
        let ip = takeWhile (isDigitIn 10) s;
            r1 = dropWhile (isDigitIn 10) s;
            dot = (r1 \<noteq> [] \<and> hd r1 = CHR ''.'');
            fp = (if dot then takeWhile (isDigitIn 10) (tl r1) else []);
            r2 = (if dot then dropWhile (isDigitIn 10) (tl r1) else r1)
        in if ip = [] \<and> fp = [] then NaN
           else case exponentPart r2 of
                  None \<Rightarrow> NaN
                | Some x \<Rightarrow>
                    let mantissa = digitsValue 10 (ip @ fp);
                        scale = x - int (length fp)
                    in if 0 \<le> scale then toDouble (mantissa * 10 ^ nat scale) 1
                       else toDouble mantissa (10 ^ nat (- scale)))"

definition negate :: "number \<Rightarrow> number" where
  "negate x =
     (case x of NaN \<Rightarrow> NaN | Fin r \<Rightarrow> Fin (- r) | PosInf \<Rightarrow> NegInf | NegInf \<Rightarrow> PosInf)"

definition nonDecimal :: "string \<Rightarrow> number option" where
  "nonDecimal s =
     (case s of
        z # x # ds \<Rightarrow>
          if z = CHR ''0'' then
            (let radix = (if x = CHR ''x'' \<or> x = CHR ''X'' then 16
                          else if x = CHR ''o'' \<or> x = CHR ''O'' then 8
                          else if x = CHR ''b'' \<or> x = CHR ''B'' then 2 else 0)
             in if radix = 0 then None
                else if ds \<noteq> [] \<and> list_all (isDigitIn radix) ds
                     then Some (toDouble (digitsValue radix ds) 1)
                     else Some NaN)
          else None
      | _ \<Rightarrow> None)"

definition Number :: "string \<Rightarrow> number" where
  "Number str =
     (let s = trim str in
      if s = [] then Fin 0
      else case nonDecimal s of
             Some v \<Rightarrow> v
           | None \<Rightarrow>
               if hd s = CHR ''-'' then negate (unsignedDecimal (tl s))
               else if hd s = CHR ''+'' then unsignedDecimal (tl s)
               else unsignedDecimal s)"

text \<open>
  \<^verbatim>\<open>String(n)\<close> on an integer-valued number. Below \<open>2\<^sup>5\<^sup>3\<close> every integer is a double
  and the text is its decimal digits. Above, the number is the double nearest to the
  integer, and the text is made of the fewest significant digits \<open>s\<close> (\<open>k\<close> of them) that
  still convert back to that double, the closest such \<open>s\<close> when there are two: followed by
  zeros when the number has at most 21 digits, and in exponent notation otherwise. A minus
  sign comes first below zero.
\<close>

definition decimalDigit :: "int \<Rightarrow> char" where
  "decimalDigit d = char_of (48 + d)"

function digits :: "int \<Rightarrow> string" where
  "digits n = (if n < 10 then [decimalDigit n] else digits (n div 10) @ [decimalDigit (n mod 10)])"
  by pat_completeness auto
termination
  by (relation "measure nat") auto

text \<open>
  The candidates with \<open>k\<close> digits for a double \<open>x\<close> of \<open>n\<close> decimal digits: the two
  multiples of \<open>10\<^sup>n\<^sup>-\<^sup>k\<close> around \<open>x\<close> that convert to \<open>x\<close>, the closer one if both do; each
  comes with \<open>k\<close> and the number of digits of the value it stands for.
\<close>

definition candidates :: "int \<Rightarrow> nat \<Rightarrow> nat \<Rightarrow> (int \<times> nat \<times> nat) list" where
  "candidates x n k =
     (let q = 10 ^ (n - k); lo = x div q; hi = lo + 1;
          ok = (\<lambda>s. 10 ^ (k - 1) \<le> s \<and> s \<le> 10 ^ k \<and> toDouble (s * q) 1 = Fin (of_int x));
          chosen = (if ok lo \<and> ok hi
                    then (if x - lo * q < hi * q - x then [lo]
                          else if hi * q - x < x - lo * q then [hi]
                          else if even lo then [lo] else [hi])
                    else filter ok [lo, hi])
      in map (\<lambda>s. if s = 10 ^ k then (10 ^ (k - 1), k, Suc n) else (s, k, n)) chosen)"

text \<open>Seventeen significant digits always suffice for a double.\<close>

definition shortest :: "int \<Rightarrow> nat \<Rightarrow> (int \<times> nat \<times> nat) option" where
  "shortest x n =
     (case concat (map (candidates x n) [1..<18]) of
        [] \<Rightarrow> None
      | skn # _ \<Rightarrow> Some skn)"

definition unsignedString :: "int \<Rightarrow> string" where
  "unsignedString i =
     (if i < 2 ^ 53 then digits i
      else case toDouble i 1 of
        Fin r \<Rightarrow>
          (let x = \<lfloor>r\<rfloor> in
           case shortest x (length (digits x)) of
             None \<Rightarrow> digits x
           | Some (s, k, n) \<Rightarrow>
               if n \<le> 21 then digits s @ replicate (n - k) (CHR ''0'')
               else hd (digits s) # (if k = 1 then [] else CHR ''.'' # tl (digits s))
                    @ ''e+'' @ digits (int n - 1))
      | _ \<Rightarrow> ''Infinity'')"

definition String :: "int \<Rightarrow> string" where
  "String i = (if i < 0 then CHR ''-'' # unsignedString (- i) else unsignedString i)"

text \<open>A string is falsy exactly when it is empty: \<^verbatim>\<open>!s\<close>.\<close>

definition falsy :: "string \<Rightarrow> bool" where
  "falsy s = (s = [])"

section \<open>Flight filter (\<^verbatim>\<open>filteredFlights\<close>)\<close>

text \<open>
  The \<^verbatim>\<open>useMemo\<close> body: no plan gives the empty list; otherwise the flights of the plan
  are filtered, in order, by the conjunction of the three matches.
\<close>

definition airlineMatch :: "Filters \<Rightarrow> Flight \<Rightarrow> bool" where
  "airlineMatch filters flight = (f_airline filters = ''all'' \<or> airline flight = f_airline filters)"

definition stopsMatch :: "Filters \<Rightarrow> Flight \<Rightarrow> bool" where
  "stopsMatch filters flight = (f_stops filters = ''all'' \<or> String (stops flight) = f_stops filters)"

definition priceMatch :: "Filters \<Rightarrow> Flight \<Rightarrow> bool" where
  "priceMatch filters flight =
     (maxPrice filters = '''' \<or> falsy (maxPrice filters)
      \<or> num_le (Fin (price flight)) (Number (maxPrice filters)))"

definition filteredFlights :: "Plan option \<Rightarrow> Filters \<Rightarrow> Flight list" where
  "filteredFlights plan filters =
     (case plan of
        None \<Rightarrow> []
      | Some p \<Rightarrow>
          filter (\<lambda>flight. airlineMatch filters flight \<and> stopsMatch filters flight
                            \<and> priceMatch filters flight) (flights p))"

section \<open>Component state\<close>

text \<open>
  The \<^verbatim>\<open>useState\<close> cells of \<^verbatim>\<open>App\<close> that the plan state manager reads and writes.
  \<open>timers\<close> is not a cell of the source: it holds the callbacks handed to
  \<^verbatim>\<open>setTimeout\<close> that have not run yet, each as the two values its closure captured
  (\<^verbatim>\<open>displayedFlights\<close> and \<^verbatim>\<open>filteredFlights\<close> of the render that created it).
  Handlers run against the latest render, so the \<^verbatim>\<open>plan\<close> a handler closes over is the
  plan of the state it updates.
\<close>

text \<open>
  The texts of the \<^verbatim>\<open>error\<close> cell, by what they report: none (the empty string), a
  response that could not be used, a plan that could not be saved.
\<close>

datatype message = NoMessage | InvalidResponse | CannotSave

record App =
  tripDetails :: TripDetails
  error :: message
  plan :: "Plan option"
  isSaved :: bool
  searchHistory :: "HistoryItem list"
  selectedFlight :: "Flight option"
  filters :: Filters
  displayedFlights :: "Flight list"
  isLoadingMore :: bool
  timers :: "(Flight list \<times> Flight list) list"

definition FLIGHTS_PER_PAGE :: nat where
  "FLIGHTS_PER_PAGE = 10"

text \<open>\<^verbatim>\<open>xs.slice(a, b)\<close> for \<open>0 \<le> a \<le> b\<close>.\<close>

definition slice :: "'a list \<Rightarrow> nat \<Rightarrow> nat \<Rightarrow> 'a list" where
  "slice xs a b = take (b - a) (drop a xs)"

text \<open>The initial cells; \<open>year\<close> is \<^verbatim>\<open>new Date().getFullYear()\<close>.\<close>

definition initialTripDetails :: "int \<Rightarrow> TripDetails" where
  "initialTripDetails year =
     \<lparr>prediction = Inl (year + 1), type' = ''Internacional'',
      origin = [CHR ''S'', CHR 0xC3, CHR 0xA3, CHR ''o'', CHR '' '', CHR ''P'', CHR ''a'',
                CHR ''u'', CHR ''l'', CHR ''o''],
      destinations = [''Lisboa'', ''Londres''], adults = Inl 2, children = Inl 0,
      startDate = [], endDate = [],
      cabin = [CHR ''E'', CHR ''c'', CHR ''o'', CHR ''n'', CHR 0xC3, CHR 0xB4, CHR ''m'',
               CHR ''i'', CHR ''c'', CHR ''a''],
      stopover = False, tripType = ''Aventura''\<rparr>"

definition initialApp :: "int \<Rightarrow> App" where
  "initialApp year =
     \<lparr>tripDetails = initialTripDetails year, error = NoMessage, plan = None, isSaved = False,
      searchHistory = [], selectedFlight = None,
      filters = \<lparr>f_airline = ''all'', f_stops = ''all'', maxPrice = []\<rparr>,
      displayedFlights = [], isLoadingMore = False, timers = []\<rparr>"

section \<open>Pagination\<close>

text \<open>
  The effect on \<^verbatim>\<open>[filteredFlights]\<close>: it runs after every render in which the memoised
  list is a new array, that is after every update that replaces \<^verbatim>\<open>plan.flights\<close> or
  \<^verbatim>\<open>filters\<close>, and sets the displayed list to the first page.
\<close>

definition resetDisplayed :: "App \<Rightarrow> App" where
  "resetDisplayed s =
     s\<lparr>displayedFlights := slice (filteredFlights (plan s) (filters s)) 0 FLIGHTS_PER_PAGE\<rparr>"

text \<open>
  \<^verbatim>\<open>handleFilterChange\<close>: \<^verbatim>\<open>setFilters(prev => ({...prev, [name]: value}))\<close>, where
  \<open>name\<close> is the name of the input; a name that is none of the three keys leaves the three
  fields as they are. The new \<^verbatim>\<open>filters\<close> object makes the effect above run.
\<close>

definition setFilter :: "string \<Rightarrow> string \<Rightarrow> Filters \<Rightarrow> Filters" where
  "setFilter name' v prev =
     (if name' = ''airline'' then prev\<lparr>f_airline := v\<rparr>
      else if name' = ''stops'' then prev\<lparr>f_stops := v\<rparr>
      else if name' = ''maxPrice'' then prev\<lparr>maxPrice := v\<rparr>
      else prev)"

definition handleFilterChange :: "string \<Rightarrow> string \<Rightarrow> App \<Rightarrow> App" where
  "handleFilterChange name' v s = resetDisplayed (s\<lparr>filters := setFilter name' v (filters s)\<rparr>)"

text \<open>
  The callback of the \<^verbatim>\<open>IntersectionObserver\<close> on the last row. \<^verbatim>\<open>lastFlightElementRef\<close>
  returns before observing anything while \<^verbatim>\<open>isLoadingMore\<close> holds, so the callback only
  runs when it does not; it then closes over the lists of the current render. When the
  row is visible and more flights remain, it sets the flag and starts the timer.
\<close>

definition observerCallback :: "bool \<Rightarrow> App \<Rightarrow> App" where
  "observerCallback isIntersecting s =
     (if isLoadingMore s then s
      else
        let filtered = filteredFlights (plan s) (filters s);
            hasMore = (length (displayedFlights s) < length filtered)
        in if isIntersecting \<and> hasMore
           then s\<lparr>isLoadingMore := True, timers := timers s @ [(displayedFlights s, filtered)]\<rparr>
           else s)"

text \<open>
  The timer callback, 500 ms later: the page is cut out of the captured list at the captured
  length, and appended to the displayed list of the moment (\<^verbatim>\<open>prev\<close>).
\<close>

definition timeoutCallback :: "App \<Rightarrow> App" where
  "timeoutCallback s =
     (case timers s of
        [] \<Rightarrow> s
      | (capturedDisplayed, capturedFiltered) # rest \<Rightarrow>
          let currentLength = length capturedDisplayed;
              newFlights = slice capturedFiltered currentLength (currentLength + FLIGHTS_PER_PAGE)
          in s\<lparr>displayedFlights := displayedFlights s @ newFlights,
               isLoadingMore := False, timers := rest\<rparr>)"

section \<open>Trip form\<close>



section \<open>Toggles and selection\<close>

text \<open>
  \<^verbatim>\<open>handleChecklistToggle\<close>: without a plan nothing happens; otherwise the checklist is
  mapped with its indices, the item at \<open>toggledIndex\<close> gets its flag negated, and the saved
  flag is cleared. \<open>toggledIndex\<close> is any integer.
\<close>

definition handleChecklistToggle :: "int \<Rightarrow> App \<Rightarrow> App" where
  "handleChecklistToggle toggledIndex s =
     (case plan s of
        None \<Rightarrow> s
      | Some p \<Rightarrow>
          let newChecklist =
                map (\<lambda>(index, item). if int index = toggledIndex
                                       then item\<lparr>completed := \<not> completed item\<rparr> else item)
                    (enumerate 0 (checklist p))
          in s\<lparr>plan := Some (p\<lparr>checklist := newChecklist\<rparr>), isSaved := False\<rparr>)"

text \<open>
  \<^verbatim>\<open>handleSelectFlight\<close>: the comparison of the two \<^verbatim>\<open>JSON.stringify\<close> texts is equality
  of the two flights.
\<close>

definition handleSelectFlight :: "Flight \<Rightarrow> App \<Rightarrow> App" where
  "handleSelectFlight flight s =
     (if selectedFlight s \<noteq> None \<and> selectedFlight s = Some flight
      then s\<lparr>selectedFlight := None, isSaved := False\<rparr>
      else s\<lparr>selectedFlight := Some flight, isSaved := False\<rparr>)"

text \<open>The events of the flight table, and a run of them from a state.\<close>

datatype event =
  FilterChange string string
| Intersect bool
| Timeout
| SelectFlight Flight
| ChecklistToggle int

fun step :: "App \<Rightarrow> event \<Rightarrow> App" where
  "step s (FilterChange name' v) = handleFilterChange name' v s"
| "step s (Intersect b) = observerCallback b s"
| "step s Timeout = timeoutCallback s"
| "step s (SelectFlight f) = handleSelectFlight f s"
| "step s (ChecklistToggle i) = handleChecklistToggle i s"

definition run :: "App \<Rightarrow> event list \<Rightarrow> App" where
  "run s evs = foldl step s evs"

text \<open>The state in which a plan has just been shown: the plan set, the first page displayed.\<close>

definition showPlan :: "Plan \<Rightarrow> App \<Rightarrow> App" where
  "showPlan p s = resetDisplayed (s\<lparr>plan := Some p\<rparr>)"

section \<open>Plan assembly and image fill\<close>

text \<open>
  The parsed response, as far as \<^verbatim>\<open>generatePlan\<close> reads it: it is spread into the plan,
  so every field is taken as it comes; \<^verbatim>\<open>checklist\<close> and \<^verbatim>\<open>packing_list\<close> may be
  missing. Reading \<^verbatim>\<open>.map\<close> of a missing checklist throws a TypeError, which the
  \<^verbatim>\<open>catch\<close> around the block turns into the invalid-response message.
\<close>

record RawPayload =
  r_itinerary :: "ItineraryDestination list"
  r_costs :: CostDetails
  r_checklist :: "ChecklistItem list option"
  r_flights :: "Flight list"
  r_locations :: "Location list"
  r_weather :: "WeatherInfo list"
  r_packing_list :: "PackingCategory list option"

datatype js_error = TypeError

text \<open>\<^verbatim>\<open>planWithChecklistState\<close>.\<close>

definition assemble :: "RawPayload \<Rightarrow> js_error + Plan" where
  "assemble jsonResponse =
     (case r_checklist jsonResponse of
        None \<Rightarrow> Inl TypeError
      | Some cl \<Rightarrow>
          Inr \<lparr>itinerary = r_itinerary jsonResponse,
               costs = r_costs jsonResponse,
               checklist = map (\<lambda>item. item\<lparr>completed := False\<rparr>) cl,
               flights = r_flights jsonResponse,
               locations = r_locations jsonResponse,
               weather = r_weather jsonResponse,
               packing_list =
                 (case r_packing_list jsonResponse of
                    None \<Rightarrow> []
                  | Some pl \<Rightarrow>
                      map (\<lambda>cat. cat\<lparr>items := map (\<lambda>item. item\<lparr>packed := False\<rparr>) (items cat)\<rparr>)
                          pl)\<rparr>)"

text \<open>
  \<^verbatim>\<open>generateDestinationImages\<close>, first statement: the updater that marks every destination
  of the plan of the moment as loading.
\<close>

definition setLoading :: "Plan option \<Rightarrow> Plan option" where
  "setLoading prevPlan =
     (case prevPlan of
        None \<Rightarrow> None
      | Some p \<Rightarrow> Some (p\<lparr>itinerary := map (\<lambda>dest. dest\<lparr>imageUrl := Str ''loading''\<rparr>) (itinerary p)\<rparr>))"

text \<open>
  One settled request: \<open>Failed\<close> is the \<^verbatim>\<open>null\<close> the \<^verbatim>\<open>catch\<close> returns (or a rejection),
  \<open>Generated imgs\<close> a response whose \<^verbatim>\<open>generatedImages\<close> carry the bytes \<open>imgs\<close>.
\<close>

datatype imageResponse = Failed | Generated "string list"

definition resultUrl :: "imageResponse \<Rightarrow> imageUrl" where
  "resultUrl result =
     (case result of
        Generated (base64Image # _) \<Rightarrow> Str (''data:image/jpeg;base64,'' @ base64Image)
      | _ \<Rightarrow> Null)"

text \<open>
  The updater queued for the result at \<open>index\<close>: nothing without a plan; otherwise the slot
  \<open>index\<close> of the plan of the moment is written. Writing a property of a slot that does not
  exist throws.
\<close>

definition applyResult :: "nat \<Rightarrow> imageResponse \<Rightarrow> Plan option \<Rightarrow> js_error + Plan option" where
  "applyResult index result prevPlan =
     (case prevPlan of
        None \<Rightarrow> Inr None
      | Some p \<Rightarrow>
          if index < length (itinerary p)
          then Inr (Some (p\<lparr>itinerary :=
                 (itinerary p)[index := (itinerary p ! index)\<lparr>imageUrl := resultUrl result\<rparr>]\<rparr>))
          else Inl TypeError)"

text \<open>\<^verbatim>\<open>results.forEach((result, index) => ...)\<close>, from index \<open>i\<close> on.\<close>

fun applyResults :: "nat \<Rightarrow> imageResponse list \<Rightarrow> Plan option \<Rightarrow> js_error + Plan option" where
  "applyResults i [] prevPlan = Inr prevPlan"
| "applyResults i (result # results) prevPlan =
     (case applyResult i result prevPlan of
        Inl e \<Rightarrow> Inl e
      | Inr next \<Rightarrow> applyResults (Suc i) results next)"

section \<open>History\<close>

definition join :: "string \<Rightarrow> string list \<Rightarrow> string" where
  "join sep xs = (case xs of [] \<Rightarrow> [] | y # ys \<Rightarrow> y @ concat (map (\<lambda>z. sep @ z) ys))"

text \<open>\<open>now\<close> is \<^verbatim>\<open>new Date().toISOString()\<close>; the title joins origin and destinations
  with an arrow (three bytes in UTF-8).\<close>

definition newHistoryItem :: "string \<Rightarrow> TripDetails \<Rightarrow> HistoryItem" where
  "newHistoryItem now td =
     \<lparr>h_id = now,
      h_title = origin td @ [CHR '' '', CHR 0xE2, CHR 0x86, CHR 0x92, CHR '' '']
                @ join '', '' (destinations td),
      h_details = td\<rparr>"

text \<open>
  The updater of \<^verbatim>\<open>setSearchHistory\<close>. The keys of trip details always come in the same
  order, and \<^verbatim>\<open>JSON.stringify\<close> writes a number and a string differently (\<^verbatim>\<open>2\<close> and
  \<^verbatim>\<open>"2"\<close>), as \<open>Inl\<close> and \<open>Inr\<close> differ; so the two texts differ exactly when the
  details differ.
\<close>

definition appendHistory :: "HistoryItem \<Rightarrow> HistoryItem list \<Rightarrow> HistoryItem list" where
  "appendHistory newItem prevHistory =
     (let filteredHistory = filter (\<lambda>item. h_details item \<noteq> h_details newItem) prevHistory
      in slice (newItem # filteredHistory) 0 5)"


section \<open>Persistence\<close>

text \<open>
  The two keys of \<^verbatim>\<open>localStorage\<close>. A stored text is either one that the load cannot
  use (\<^verbatim>\<open>JSON.parse\<close> or a property read throws), or the JSON of a snapshot, which
  \<^verbatim>\<open>JSON.parse\<close> turns back into the values that were written.
\<close>

datatype storedPlan = Garbage | Snapshot "Plan option" "TripDetails option" "Flight option"

datatype storedHistory = GarbageHistory | Ring "HistoryItem list"

record Storage =
  planKey :: "storedPlan option"
  historyKey :: "storedHistory option"

text \<open>
  \<^verbatim>\<open>handleSavePlan\<close>; \<open>writable\<close> tells whether \<^verbatim>\<open>localStorage.setItem\<close> returns (it
  throws when the quota is exceeded).
\<close>

definition handleSavePlan :: "bool \<Rightarrow> App \<times> Storage \<Rightarrow> App \<times> Storage" where
  "handleSavePlan writable st =
     (let (s, sto) = st in
      case plan s of
        None \<Rightarrow> (s, sto)
      | Some p \<Rightarrow>
          if writable
          then (s\<lparr>isSaved := True\<rparr>,
                sto\<lparr>planKey := Some (Snapshot (Some p) (Some (tripDetails s)) (selectedFlight s))\<rparr>)
          else (s\<lparr>error := CannotSave\<rparr>, sto))"

text \<open>\<^verbatim>\<open>planWithCheckedState\<close> of the load effect.\<close>

definition withCheckedState :: "Plan \<Rightarrow> Plan" where
  "withCheckedState savedPlan =
     savedPlan\<lparr>checklist := map (\<lambda>item. item\<lparr>completed := (completed item \<or> False)\<rparr>)
                               (checklist savedPlan),
               packing_list :=
                 map (\<lambda>cat. cat\<lparr>items := map (\<lambda>item. item\<lparr>packed := (packed item \<or> False)\<rparr>)
                                               (items cat)\<rparr>)
                     (packing_list savedPlan)\<rparr>"

text \<open>The mount effect: first the plan key, then the history key.\<close>

definition loadPlan :: "App \<times> Storage \<Rightarrow> App \<times> Storage" where
  "loadPlan st =
     (let (s, sto) = st in
      case planKey sto of
        None \<Rightarrow> (s, sto)
      | Some Garbage \<Rightarrow> (s, sto\<lparr>planKey := None\<rparr>)
      | Some (Snapshot savedPlan savedTripDetails savedFlight) \<Rightarrow>
          (case (savedPlan, savedTripDetails) of
             (Some p, Some td) \<Rightarrow>
               (resetDisplayed (s\<lparr>plan := Some (withCheckedState p), tripDetails := td,
                                  selectedFlight := savedFlight, isSaved := True\<rparr>), sto)
           | _ \<Rightarrow> (s, sto)))"

definition loadHistory :: "App \<times> Storage \<Rightarrow> App \<times> Storage" where
  "loadHistory st =
     (let (s, sto) = st in
      case historyKey sto of
        None \<Rightarrow> (s, sto)
      | Some GarbageHistory \<Rightarrow> (s, sto\<lparr>historyKey := None\<rparr>)
      | Some (Ring h) \<Rightarrow> (s\<lparr>searchHistory := h\<rparr>, sto))"

definition loadEffect :: "App \<times> Storage \<Rightarrow> App \<times> Storage" where
  "loadEffect st = loadHistory (loadPlan st)"

section \<open>Plan generation\<close>

text \<open>
  \<^verbatim>\<open>generatePlan\<close> once the API key is there: the plan, the saved flag, the selection and
  the message are cleared before the request is sent.
\<close>

definition beginGeneration :: "App \<Rightarrow> App" where
  "beginGeneration s =
     resetDisplayed (s\<lparr>error := NoMessage, plan := None, isSaved := False, selectedFlight := None\<rparr>)"

text \<open>
  The block that handles the parsed response: the plan is assembled and stored, the image
  fill starts (its first updater is queued in the same block), and the history gets its new
  entry, written to the store when the store takes it. \<open>requested\<close> is the
  \<^verbatim>\<open>tripDetails\<close> that \<^verbatim>\<open>generatePlan\<close> closed over when the request was sent.
\<close>

definition onResponse ::
  "string \<Rightarrow> bool \<Rightarrow> TripDetails \<Rightarrow> RawPayload \<Rightarrow> App \<times> Storage \<Rightarrow> App \<times> Storage" where
  "onResponse now writable requested jsonResponse st =
     (let (s, sto) = st in
      case assemble jsonResponse of
        Inl e \<Rightarrow> (s\<lparr>error := InvalidResponse\<rparr>, sto)
      | Inr planWithChecklistState \<Rightarrow>
          let s1 = showPlan planWithChecklistState s;
              s2 = s1\<lparr>plan := setLoading (plan s1)\<rparr>;
              updatedHistory = appendHistory (newHistoryItem now requested) (searchHistory s)
          in (s2\<lparr>searchHistory := updatedHistory\<rparr>,
              if writable then sto\<lparr>historyKey := Some (Ring updatedHistory)\<rparr> else sto))"

text \<open>\<^verbatim>\<open>handleLoadHistoryItem\<close>.\<close>

definition handleLoadHistoryItem :: "TripDetails \<Rightarrow> App \<Rightarrow> App" where
  "handleLoadHistoryItem itemDetails s =
     resetDisplayed (s\<lparr>tripDetails := itemDetails, plan := None, error := NoMessage,
                        isSaved := False, selectedFlight := None\<rparr>)"

section \<open>The filter contract as the specification words it\<close>

text \<open>
  The price conjunct of the specification: the price is at most the maximum when the
  maximum is a valid positive number, and unconstrained otherwise.
\<close>

definition spec_priceMatch :: "Filters \<Rightarrow> Flight \<Rightarrow> bool" where
  "spec_priceMatch criteria flight =
     (case Number (maxPrice criteria) of
        Fin m \<Rightarrow> (if 0 < m then price flight \<le> m else True)
      | _ \<Rightarrow> True)"

definition spec_filtered :: "Flight list \<Rightarrow> Filters \<Rightarrow> Flight list" where
  "spec_filtered fs criteria =
     filter (\<lambda>flight. (airline flight = f_airline criteria \<or> f_airline criteria = ''all'')
                     \<and> (String (stops flight) = f_stops criteria \<or> f_stops criteria = ''all'')
                     \<and> spec_priceMatch criteria flight) fs"

section \<open>Sample data\<close>

definition mkFlight :: "string \<Rightarrow> int \<Rightarrow> rat \<Rightarrow> Flight" where
  "mkFlight a n pr = \<lparr>airline = a, stops = n, price = pr, class' = ''Y''\<rparr>"

definition mkDestination :: "string \<Rightarrow> ItineraryDestination" where
  "mkDestination n =
     \<lparr>destination_name = n, destination_summary = [], daily_plan = [], transport_tips = [],
      safety_tips = [], food_recommendations = [], imageUrl = Absent\<rparr>"

definition noCosts :: CostDetails where
  "noCosts = \<lparr>accommodation = 0, food = 0, activities = 0, transport = 0,
              total_without_flights = 0\<rparr>"

definition sampleChecklist :: "ChecklistItem list" where
  "sampleChecklist =
     [\<lparr>task = ''Passport'', details = ''Check validity'', completed = True\<rparr>,
      \<lparr>task = ''Insurance'', details = ''Buy cover'', completed = False\<rparr>]"

definition planOf :: "Flight list \<Rightarrow> Plan" where
  "planOf fs =
     \<lparr>itinerary = [], costs = noCosts, checklist = sampleChecklist, flights = fs,
      locations = [], weather = [], packing_list = []\<rparr>"

text \<open>A response for the given destinations, as the schema shapes it: no image keys, no
  packing list.\<close>

definition mkPayload :: "string list \<Rightarrow> RawPayload" where
  "mkPayload ns =
     \<lparr>r_itinerary = map mkDestination ns, r_costs = noCosts,
      r_checklist = Some sampleChecklist,
      r_flights = [], r_locations = [], r_weather = [], r_packing_list = None\<rparr>"

definition emptyStorage :: Storage where
  "emptyStorage = \<lparr>planKey = None, historyKey = None\<rparr>"

text \<open>Twelve flights: eleven of airline A without stops, then one of airline B with one stop.\<close>

definition twelveFlights :: "Flight list" where
  "twelveFlights = replicate 11 (mkFlight ''A'' 0 100) @ [mkFlight ''B'' 1 200]"

text \<open>The example of the specification: three flights.\<close>

definition threeFlights :: "Flight list" where
  "threeFlights = [mkFlight ''A'' 0 100, mkFlight ''B'' 1 200, mkFlight ''C'' 2 50]"

section \<open>Auxiliary facts\<close>

lemma map_enumerate_toggle:
  "map (\<lambda>(index, item). if int index = i then f item else item) (enumerate 0 xs)
   = (if 0 \<le> i \<and> nat i < length xs then xs[nat i := f (xs ! nat i)] else xs)"
  by (rule nth_equalityI) (auto simp: nth_enumerate_eq nth_list_update)


lemma snd_save:
  "plan s = Some p \<Longrightarrow>
   snd (handleSavePlan True (s, sto))
     = sto\<lparr>planKey := Some (Snapshot (Some p) (Some (tripDetails s)) (selectedFlight s))\<rparr>"
  by (simp add: handleSavePlan_def)

lemma withCheckedState_id: "withCheckedState p = p"
  by (simp add: withCheckedState_def map_idI)

lemma loadPlan_snapshot:
  "planKey sto = Some (Snapshot (Some p) (Some td) sf) \<Longrightarrow>
   loadPlan (s, sto)
     = (resetDisplayed (s\<lparr>plan := Some p, tripDetails := td, selectedFlight := sf,
                           isSaved := True\<rparr>), sto)"
  by (simp add: loadPlan_def withCheckedState_id)

lemma loadHistory_fields:
  "plan (fst (loadHistory (s, sto))) = plan s
   \<and> tripDetails (fst (loadHistory (s, sto))) = tripDetails s
   \<and> selectedFlight (fst (loadHistory (s, sto))) = selectedFlight s"
  by (simp add: loadHistory_def split: option.split storedHistory.split)

text \<open>Without a plan, every late image result leaves the state without a plan.\<close>

lemma applyResults_no_plan: "applyResults i results None = Inr None"
  by (induction results arbitrary: i) (simp_all add: applyResult_def)

section \<open>Flight filter\<close>

text \<open>\<^verbatim>\<open>Number\<close> on some maximum-price texts, the values checked against an engine.\<close>

lemma Number_examples:
  "Number '''' = Fin 0"
  "Number ''0'' = Fin 0"
  "Number ''-5'' = Fin (- 5)"
  "Number ''100'' = Fin 100"
  "Number ''4500.50'' = Fin (9001 / 2)"
  "Number ''99.99'' = Fin (7036170730324623 / 70368744177664)"
  "Number ''0.1'' = Fin (3602879701896397 / 36028797018963968)"
  "Number ''2.5e-3'' = Fin (5764607523034235 / 2305843009213693952)"
  "Number ''99.99999999999999999'' = Fin 100"
  "Number ''9007199254740993'' = Fin 9007199254740992"
  "Number ''1e400'' = PosInf"
  "Number ''-1e400'' = NegInf"
  "Number ''1e-400'' = Fin 0"
  "Number '' 12 '' = Fin 12"
  "Number ([CHR 0xC2, CHR 0xA0] @ ''12'' @ [CHR 0xE2, CHR 0x80, CHR 0xA8, CHR 0x0A]) = Fin 12"
  "Number ''1 2'' = NaN"
  "Number ''0x1F'' = Fin 31"
  "Number ''Infinity'' = PosInf"
  "Number ''abc'' = NaN"
  "Number ''12abc'' = NaN"
  "Number ''.'' = NaN"
  by code_simp+

text \<open>\<^verbatim>\<open>String\<close> on some integers, the texts checked against an engine.\<close>

lemma String_examples:
  "String 0 = ''0''"
  "String 2 = ''2''"
  "String 10 = ''10''"
  "String (- 45) = ''-45''"
  "String 9007199254740991 = ''9007199254740991''"
  "String (2 ^ 60) = ''1152921504606847000''"
  "String (10 ^ 20) = ''100000000000000000000''"
  "String (10 ^ 21) = ''1e+21''"
  "String 123456789012345677877719597056 = ''1.2345678901234568e+29''"
  by code_simp+

lemma num_le_Fin:
  "num_le (Fin x) n = (case n of NaN \<Rightarrow> False | Fin m \<Rightarrow> x \<le> m | PosInf \<Rightarrow> True | NegInf \<Rightarrow> False)"
  by (cases n) simp_all

text \<open>
  C1 (as amended). The filtered list is the empty list without a plan, and otherwise exactly
  the flights of the plan, in their order, that satisfy the conjunction: the airline
  criterion is \<^verbatim>\<open>'all'\<close> or equals the flight's airline; the stop criterion is \<^verbatim>\<open>'all'\<close> or
  equals the decimal text of the flight's stop count; and the maximum-price text is empty or
  the price is at most \<^verbatim>\<open>Number\<close> of that text. A maximum that is not empty is always
  applied as it converts: when it converts to a number \<open>m\<close>, positive, zero or negative, the
  flights kept are those with \<open>price \<le> m\<close>, the bound included; when it converts to NaN
  no flight is kept; an empty maximum constrains nothing. The function is total.
\<close>

theorem filteredFlights_conjunctive:
  "filteredFlights None criteria = []
   \<and> filteredFlights (Some p) criteria =
       filter (\<lambda>flight. (f_airline criteria = ''all'' \<or> airline flight = f_airline criteria)
                       \<and> (f_stops criteria = ''all'' \<or> String (stops flight) = f_stops criteria)
                       \<and> (maxPrice criteria = []
                            \<or> (case Number (maxPrice criteria) of
                                  NaN \<Rightarrow> False
                                | Fin m \<Rightarrow> price flight \<le> m
                                | PosInf \<Rightarrow> True
                                | NegInf \<Rightarrow> False)))
              (flights p)
   \<and> (maxPrice criteria = [] \<longrightarrow>
        filteredFlights (Some p) criteria =
          filter (\<lambda>flight. (f_airline criteria = ''all'' \<or> airline flight = f_airline criteria)
                          \<and> (f_stops criteria = ''all'' \<or> String (stops flight) = f_stops criteria))
                 (flights p))
   \<and> (maxPrice criteria \<noteq> [] \<and> Number (maxPrice criteria) = Fin m \<longrightarrow>
        filteredFlights (Some p) criteria =
          filter (\<lambda>flight. (f_airline criteria = ''all'' \<or> airline flight = f_airline criteria)
                          \<and> (f_stops criteria = ''all'' \<or> String (stops flight) = f_stops criteria)
                          \<and> price flight \<le> m)
                 (flights p))
   \<and> (maxPrice criteria \<noteq> [] \<and> Number (maxPrice criteria) = NaN \<longrightarrow>
        filteredFlights (Some p) criteria = [])"
  by (simp add: filteredFlights_def airlineMatch_def stopsMatch_def priceMatch_def falsy_def
        num_le_Fin)

text \<open>
  The maximum \<^verbatim>\<open>"100"\<close> on the three flights of prices 100, 200 and 50: the flight at the
  bound is kept.
\<close>

theorem filteredFlights_conjunctive_witness:
  "maxPrice \<lparr>f_airline = ''all'', f_stops = ''all'', maxPrice = ''100''\<rparr> \<noteq> []
   \<and> Number (maxPrice \<lparr>f_airline = ''all'', f_stops = ''all'', maxPrice = ''100''\<rparr>) = Fin 100
   \<and> filteredFlights (Some (planOf threeFlights))
        \<lparr>f_airline = ''all'', f_stops = ''all'', maxPrice = ''100''\<rparr>
      = [mkFlight ''A'' 0 100, mkFlight ''C'' 2 50]"
proof -
  let ?c = "\<lparr>f_airline = ''all'', f_stops = ''all'', maxPrice = ''100''\<rparr>"
  have h1: "maxPrice ?c \<noteq> []" by simp
  have h2: "Number (maxPrice ?c) = Fin 100" by code_simp
  from filteredFlights_conjunctive [of ?c "planOf threeFlights" 100] h1 h2
  have "filteredFlights (Some (planOf threeFlights)) ?c =
          filter (\<lambda>flight. (f_airline ?c = ''all'' \<or> airline flight = f_airline ?c)
                          \<and> (f_stops ?c = ''all'' \<or> String (stops flight) = f_stops ?c)
                          \<and> price flight \<le> 100)
                 (flights (planOf threeFlights))"
    by blast
  also have "\<dots> = [mkFlight ''A'' 0 100, mkFlight ''C'' 2 50]"
    by code_simp
  finally show ?thesis using h1 h2 by blast
qed

text \<open>
  The filter on the three flights for several maxima: the example of the specification (stops
  \<^verbatim>\<open>"0"\<close>, no maximum); a decimal just below 100; a decimal that is 100 as a double; a
  negative one; one that is no number.
\<close>

lemma filteredFlights_examples:
  "filteredFlights (Some (planOf threeFlights))
     \<lparr>f_airline = ''all'', f_stops = ''0'', maxPrice = []\<rparr> = [mkFlight ''A'' 0 100]"
  "filteredFlights (Some (planOf threeFlights))
     \<lparr>f_airline = ''all'', f_stops = ''all'', maxPrice = ''99.99''\<rparr> = [mkFlight ''C'' 2 50]"
  "filteredFlights (Some (planOf threeFlights))
     \<lparr>f_airline = ''all'', f_stops = ''all'', maxPrice = ''99.99999999999999999''\<rparr>
     = [mkFlight ''A'' 0 100, mkFlight ''C'' 2 50]"
  "filteredFlights (Some (planOf threeFlights))
     \<lparr>f_airline = ''all'', f_stops = ''all'', maxPrice = ''-5''\<rparr> = []"
  "filteredFlights (Some (planOf threeFlights))
     \<lparr>f_airline = ''all'', f_stops = ''all'', maxPrice = ''abc''\<rparr> = []"
  "filteredFlights (Some (planOf threeFlights))
     \<lparr>f_airline = ''B'', f_stops = ''1'', maxPrice = ''1e400''\<rparr> = [mkFlight ''B'' 1 200]"
  by code_simp+

text \<open>
  C1 as stated fails: with the maximum price \<^verbatim>\<open>"0"\<close>, which is no positive number, the
  specification leaves the price unconstrained and keeps the flight of price 100, while the
  code compares \<open>100 \<le> 0\<close> and drops it.
\<close>

theorem filteredFlights_max_zero_counterexample:
  "filteredFlights (Some (planOf [mkFlight ''A'' 0 100]))
     \<lparr>f_airline = ''all'', f_stops = ''all'', maxPrice = ''0''\<rparr> = []
   \<and> spec_filtered [mkFlight ''A'' 0 100]
       \<lparr>f_airline = ''all'', f_stops = ''all'', maxPrice = ''0''\<rparr> = [mkFlight ''A'' 0 100]"
  by code_simp

text \<open>
  C6. The stop bucket \<^verbatim>\<open>"2"\<close> (labelled \<^verbatim>\<open>2+ Paradas\<close> in the select) is compared for
  equality with the text of the stop count: a flight with three stops, which has two or more,
  is not in the filtered list.
\<close>

theorem stops_bucket_two_is_exact:
  "filteredFlights (Some (planOf [mkFlight ''X'' 3 100]))
     \<lparr>f_airline = ''all'', f_stops = ''2'', maxPrice = []\<rparr> = []
   \<and> 2 \<le> stops (mkFlight ''X'' 3 100)
   \<and> filteredFlights (Some (planOf [mkFlight ''X'' 2 100]))
       \<lparr>f_airline = ''all'', f_stops = ''2'', maxPrice = []\<rparr> = [mkFlight ''X'' 2 100]"
  by code_simp

section \<open>Checklist toggle\<close>

text \<open>
  C7. With a plan and an index \<open>i\<close> inside the checklist, \<^verbatim>\<open>handleChecklistToggle\<close> negates
  the flag of item \<open>i\<close> and of no other item, changes no other field of the plan and no
  other cell of the state, and clears the saved flag; toggling \<open>i\<close> twice gives back the
  plan as it was (every item, item \<open>i\<close> included), with the saved flag cleared.
\<close>

theorem toggle_in_range:
  assumes "plan s = Some p" and "0 \<le> i" and "i < int (length (checklist p))"
  shows "handleChecklistToggle i s =
           s\<lparr>plan := Some (p\<lparr>checklist :=
                  (checklist p)[nat i := (checklist p ! nat i)
                                  \<lparr>completed := \<not> completed (checklist p ! nat i)\<rparr>]\<rparr>),
             isSaved := False\<rparr>
         \<and> handleChecklistToggle i (handleChecklistToggle i s) = s\<lparr>isSaved := False\<rparr>"
proof -
  let ?cl = "checklist p"
  let ?x = "?cl ! nat i"
  from assms have r: "nat i < length ?cl" by linarith
  have one: "handleChecklistToggle i s =
           s\<lparr>plan := Some (p\<lparr>checklist := ?cl[nat i := ?x\<lparr>completed := \<not> completed ?x\<rparr>]\<rparr>),
             isSaved := False\<rparr>"
    using assms r by (simp add: handleChecklistToggle_def map_enumerate_toggle)
  have two: "handleChecklistToggle i (handleChecklistToggle i s) = s\<lparr>isSaved := False\<rparr>"
    using assms r
    by (simp add: one handleChecklistToggle_def map_enumerate_toggle list_update_same_conv)
  from one two show ?thesis by simp
qed

text \<open>The sample checklist has the flags True, False; item 0 is toggled.\<close>

theorem toggle_in_range_witness:
  "plan (showPlan (planOf threeFlights) (initialApp 2025)) = Some (planOf threeFlights)
   \<and> (0::int) \<le> 0 \<and> (0::int) < int (length (checklist (planOf threeFlights)))
   \<and> map completed (checklist (planOf threeFlights)) = [True, False]
   \<and> map (map completed \<circ> checklist)
        (case plan (handleChecklistToggle 0 (showPlan (planOf threeFlights) (initialApp 2025)))
         of None \<Rightarrow> [] | Some q \<Rightarrow> [q]) = [[False, False]]
   \<and> isSaved (handleChecklistToggle 0 (showPlan (planOf threeFlights) (initialApp 2025))) = False
   \<and> handleChecklistToggle 0
        (handleChecklistToggle 0 (showPlan (planOf threeFlights) (initialApp 2025)))
       = (showPlan (planOf threeFlights) (initialApp 2025))\<lparr>isSaved := False\<rparr>"
proof -
  let ?s = "showPlan (planOf threeFlights) (initialApp 2025)"
  have h1: "plan ?s = Some (planOf threeFlights)" by code_simp
  have h2: "(0::int) \<le> 0" by simp
  have h3: "(0::int) < int (length (checklist (planOf threeFlights)))" by code_simp
  have v1: "map completed (checklist (planOf threeFlights)) = [True, False]" by code_simp
  have v2: "map (map completed \<circ> checklist)
        (case plan (handleChecklistToggle 0 ?s) of None \<Rightarrow> [] | Some q \<Rightarrow> [q]) = [[False, False]]"
    by code_simp
  have v3: "isSaved (handleChecklistToggle 0 ?s) = False" by code_simp
  from toggle_in_range [OF h1 h2 h3]
  have twice: "handleChecklistToggle 0 (handleChecklistToggle 0 ?s) = ?s\<lparr>isSaved := False\<rparr>"
    by (rule conjunct2)
  from h1 h2 h3 v1 v2 v3 twice show ?thesis by blast
qed

text \<open>
  C10. With a plan and an integer index outside the checklist (negative, or at least its
  length), \<^verbatim>\<open>handleChecklistToggle\<close> returns normally, every checklist item and every other
  plan field and state cell is as before, and the saved flag is cleared.
\<close>

theorem toggle_out_of_range:
  assumes "plan s = Some p" and "i < 0 \<or> int (length (checklist p)) \<le> i"
  shows "handleChecklistToggle i s = s\<lparr>isSaved := False\<rparr>"
proof -
  from assms(2) have out: "(0 \<le> i \<and> nat i < length (checklist p)) = False" by auto
  have "handleChecklistToggle i s = s\<lparr>plan := Some p, isSaved := False\<rparr>"
    using assms(1) by (simp add: handleChecklistToggle_def map_enumerate_toggle out)
  also have "s\<lparr>plan := Some p\<rparr> = s"
    using assms(1) by (cases s) simp
  finally show ?thesis .
qed

text \<open>Index 2 on the sample checklist of two items, in a state that was saved.\<close>

theorem toggle_out_of_range_witness:
  "plan ((showPlan (planOf threeFlights) (initialApp 2025))\<lparr>isSaved := True\<rparr>)
     = Some (planOf threeFlights)
   \<and> int (length (checklist (planOf threeFlights))) \<le> 2
   \<and> handleChecklistToggle 2 ((showPlan (planOf threeFlights) (initialApp 2025))\<lparr>isSaved := True\<rparr>)
       = (showPlan (planOf threeFlights) (initialApp 2025))\<lparr>isSaved := True\<rparr>\<lparr>isSaved := False\<rparr>"
proof -
  let ?s = "(showPlan (planOf threeFlights) (initialApp 2025))\<lparr>isSaved := True\<rparr>"
  have h1: "plan ?s = Some (planOf threeFlights)" by code_simp
  have h2: "int (length (checklist (planOf threeFlights))) \<le> 2" by code_simp
  then have h2': "(2::int) < 0 \<or> int (length (checklist (planOf threeFlights))) \<le> 2" by (rule disjI2)
  from h1 h2 toggle_out_of_range [OF h1 h2'] show ?thesis by blast
qed

section \<open>History ring\<close>



section \<open>Save and load\<close>

text \<open>
  C9. When a plan is there and the store takes the write, \<^verbatim>\<open>handleSavePlan\<close> followed by the
  mount effect on a fresh component gives a state whose plan, trip details and selected
  flight are the ones that were saved.
\<close>

theorem save_then_load:
  assumes "plan s = Some p"
  shows "plan (fst (loadEffect (initialApp year, snd (handleSavePlan True (s, sto))))) = Some p
       \<and> tripDetails (fst (loadEffect (initialApp year, snd (handleSavePlan True (s, sto)))))
           = tripDetails s
       \<and> selectedFlight (fst (loadEffect (initialApp year, snd (handleSavePlan True (s, sto)))))
           = selectedFlight s"
proof -
  let ?sto = "snd (handleSavePlan True (s, sto))"
  have key: "planKey ?sto = Some (Snapshot (Some p) (Some (tripDetails s)) (selectedFlight s))"
    using assms by (simp add: snd_save)
  have "loadEffect (initialApp year, ?sto) =
        loadHistory (resetDisplayed ((initialApp year)\<lparr>plan := Some p, tripDetails := tripDetails s,
                       selectedFlight := selectedFlight s, isSaved := True\<rparr>), ?sto)"
    unfolding loadEffect_def by (simp only: loadPlan_snapshot [OF key])
  then show ?thesis
    by (simp add: loadHistory_fields resetDisplayed_def)
qed

text \<open>A plan with a toggled checklist item and a selected flight is saved, then loaded.\<close>

theorem save_then_load_witness:
  "plan (handleSelectFlight (mkFlight ''B'' 1 200)
           (handleChecklistToggle 1 (showPlan (planOf threeFlights) (initialApp 2025))))
     = Some ((planOf threeFlights)\<lparr>checklist := map (\<lambda>item. item\<lparr>completed := True\<rparr>) sampleChecklist\<rparr>)
   \<and> selectedFlight (fst (loadEffect (initialApp 2026,
        snd (handleSavePlan True
              (handleSelectFlight (mkFlight ''B'' 1 200)
                 (handleChecklistToggle 1 (showPlan (planOf threeFlights) (initialApp 2025))),
               emptyStorage)))))
     = Some (mkFlight ''B'' 1 200)
   \<and> plan (fst (loadEffect (initialApp 2026,
        snd (handleSavePlan True
              (handleSelectFlight (mkFlight ''B'' 1 200)
                 (handleChecklistToggle 1 (showPlan (planOf threeFlights) (initialApp 2025))),
               emptyStorage)))))
     = Some ((planOf threeFlights)\<lparr>checklist := map (\<lambda>item. item\<lparr>completed := True\<rparr>) sampleChecklist\<rparr>)"
proof -
  let ?s = "handleSelectFlight (mkFlight ''B'' 1 200)
              (handleChecklistToggle 1 (showPlan (planOf threeFlights) (initialApp 2025)))"
  let ?p = "(planOf threeFlights)\<lparr>checklist := map (\<lambda>item. item\<lparr>completed := True\<rparr>) sampleChecklist\<rparr>"
  have h: "plan ?s = Some ?p" by code_simp
  have sel: "selectedFlight ?s = Some (mkFlight ''B'' 1 200)" by code_simp
  from save_then_load [OF h, of 2026 emptyStorage] h sel show ?thesis by simp
qed

section \<open>Plan assembly and image state\<close>

text \<open>The handlers of the flight table and the save handler leave the itinerary alone.\<close>

lemma step_keeps_itinerary:
  "map_option itinerary (plan (step s ev)) = map_option itinerary (plan s)"
proof (cases ev)
  case (FilterChange n v)
  then show ?thesis by (simp add: handleFilterChange_def resetDisplayed_def)
next
  case (Intersect b)
  then show ?thesis by (simp add: observerCallback_def Let_def)
next
  case Timeout
  then show ?thesis by (simp add: timeoutCallback_def Let_def split: list.split)
next
  case (SelectFlight f)
  then show ?thesis by (simp add: handleSelectFlight_def)
next
  case (ChecklistToggle i)
  then show ?thesis by (simp add: handleChecklistToggle_def Let_def split: option.split)
qed

lemma save_keeps_plan: "plan (fst (handleSavePlan w (s, sto))) = plan s"
  by (simp add: handleSavePlan_def split: option.split)

text \<open>
  C5 (as amended). When the response assembles to a plan, the state after the block that
  handles the response holds that plan with every destination's image state set to
  \<^verbatim>\<open>'loading'\<close>: the assembled value carries the destinations as the response gave them,
  and the first step of the image fill, queued in the same block right after the plan is
  stored, marks every one of them as pending. The handlers of the flight table, the
  checklist toggle and the save handler do not write the itinerary afterwards.
\<close>

theorem generation_marks_loading:
  assumes "assemble raw = Inr p"
  shows "itinerary p = r_itinerary raw
         \<and> plan (fst (onResponse now writable requested raw (s, sto)))
             = Some (p\<lparr>itinerary := map (\<lambda>dest. dest\<lparr>imageUrl := Str ''loading''\<rparr>) (itinerary p)\<rparr>)
         \<and> list_all (\<lambda>dest. imageUrl dest = Str ''loading'')
              (case plan (fst (onResponse now writable requested raw (s, sto))) of
                 None \<Rightarrow> [] | Some q \<Rightarrow> itinerary q)
         \<and> (case plan (fst (onResponse now writable requested raw (s, sto))) of
               None \<Rightarrow> 0 | Some q \<Rightarrow> length (itinerary q)) = length (r_itinerary raw)
         \<and> map_option itinerary (plan (step s' ev)) = map_option itinerary (plan s')
         \<and> map_option itinerary (plan (fst (handleSavePlan w (s', sto'))))
             = map_option itinerary (plan s')"
proof -
  have it: "itinerary p = r_itinerary raw"
    using assms by (auto simp: assemble_def split: option.splits)
  have pl: "plan (fst (onResponse now writable requested raw (s, sto)))
           = Some (p\<lparr>itinerary := map (\<lambda>dest. dest\<lparr>imageUrl := Str ''loading''\<rparr>) (itinerary p)\<rparr>)"
    using assms by (simp add: onResponse_def showPlan_def resetDisplayed_def setLoading_def Let_def)
  show ?thesis
    unfolding pl using it by (simp add: list_all_iff step_keeps_itinerary save_keeps_plan)
qed

text \<open>A response for two destinations.\<close>

theorem generation_marks_loading_witness:
  "isl (assemble (mkPayload [''Lisboa'', ''Londres''])) = False
   \<and> map imageUrl
       (case plan (fst (onResponse ''t1'' True (initialTripDetails 2025) (mkPayload [''Lisboa'', ''Londres''])
                          (initialApp 2025, emptyStorage))) of
          None \<Rightarrow> [] | Some q \<Rightarrow> itinerary q)
     = [Str ''loading'', Str ''loading'']
   \<and> list_all (\<lambda>dest. imageUrl dest = Str ''loading'')
       (case plan (fst (onResponse ''t1'' True (initialTripDetails 2025) (mkPayload [''Lisboa'', ''Londres''])
                          (initialApp 2025, emptyStorage))) of
          None \<Rightarrow> [] | Some q \<Rightarrow> itinerary q)"
proof -
  let ?raw = "mkPayload [''Lisboa'', ''Londres'']"
  have ok: "isl (assemble ?raw) = False" by code_simp
  then have h: "assemble ?raw = Inr (projr (assemble ?raw))"
    by (cases "assemble ?raw") simp_all
  have v: "map imageUrl
       (case plan (fst (onResponse ''t1'' True (initialTripDetails 2025) ?raw (initialApp 2025, emptyStorage))) of
          None \<Rightarrow> [] | Some q \<Rightarrow> itinerary q)
     = [Str ''loading'', Str ''loading'']"
    by code_simp
  from generation_marks_loading [OF h, of "''t1''" True "initialTripDetails 2025" "initialApp 2025" emptyStorage] ok v
  show ?thesis by blast
qed

text \<open>
  C5 as stated fails: the plan that assembly returns for a response shaped by the schema has
  no image key on its destinations, not the pending marker.
\<close>

theorem assembled_plan_has_no_image_key_counterexample:
  "isl (assemble (mkPayload [''Lisboa'', ''Londres''])) = False
   \<and> map imageUrl (itinerary (projr (assemble (mkPayload [''Lisboa'', ''Londres'']))))
       = [Absent, Absent]"
  by code_simp

text \<open>
  C4. A late image result is applied to whatever plan is current: only the absence of a plan
  is checked. Here a plan for Lisboa is generated and its image requested, a second
  generation replaces it by a plan for Paris, and then the result for Lisboa arrives: it is
  written into the slot of Paris. When the results of a plan with two destinations arrive
  after a plan with one destination has replaced it, the second update throws.
\<close>

theorem late_image_result_hits_newer_plan:
  "map (\<lambda>d. (destination_name d, imageUrl d))
     (case applyResults 0 [Generated [''QUJD'']]
            (plan (fst (onResponse ''t2'' True (initialTripDetails 2025) (mkPayload [''Paris''])
                     (map_prod beginGeneration id
                        (onResponse ''t1'' True (initialTripDetails 2025) (mkPayload [''Lisboa''])
                           (initialApp 2025, emptyStorage))))))
      of Inr (Some q) \<Rightarrow> itinerary q | _ \<Rightarrow> [])
   = [(''Paris'', Str ''data:image/jpeg;base64,QUJD'')]
   \<and> applyResults 0 [Generated [''QUJD''], Failed]
        (plan (fst (onResponse ''t2'' True (initialTripDetails 2025) (mkPayload [''Paris''])
                 (map_prod beginGeneration id
                    (onResponse ''t1'' True (initialTripDetails 2025) (mkPayload [''Lisboa'', ''Londres''])
                       (initialApp 2025, emptyStorage))))))
     = Inl TypeError"
  by code_simp

section \<open>Pagination and pending page loads\<close>

lemma observer_starts_timer:
  assumes "displayedFlights s = take n (filteredFlights (plan s) (filters s))"
      and "n < length (filteredFlights (plan s) (filters s))"
      and "\<not> isLoadingMore s"
  shows "observerCallback True s
           = s\<lparr>isLoadingMore := True,
               timers := timers s @ [(displayedFlights s, filteredFlights (plan s) (filters s))]\<rparr>"
  using assms by (simp add: observerCallback_def Let_def)

lemma select_keeps_pagination:
  "timers (handleSelectFlight f s) = timers s
   \<and> isLoadingMore (handleSelectFlight f s) = isLoadingMore s
   \<and> displayedFlights (handleSelectFlight f s) = displayedFlights s
   \<and> plan (handleSelectFlight f s) = plan s
   \<and> filters (handleSelectFlight f s) = filters s"
  by (simp add: handleSelectFlight_def)

text \<open>
  C2. The displayed list does not stay a prefix of the filtered list. Twelve flights are
  shown (ten displayed), the last row comes into view and the timer starts; before it fires
  the airline filter is set to B, which resets the displayed list to the one flight of B;
  then the timer fires and appends the page it cut from the list it captured. The displayed
  list is then B, A, B while the filtered list is B alone.
\<close>

theorem stale_page_breaks_prefix:
  "displayedFlights (run (showPlan (planOf twelveFlights) (initialApp 2025))
       [Intersect True, FilterChange ''airline'' ''B''])
     = [mkFlight ''B'' 1 200]
   \<and> displayedFlights (run (showPlan (planOf twelveFlights) (initialApp 2025))
       [Intersect True, FilterChange ''airline'' ''B'', Timeout])
     = [mkFlight ''B'' 1 200, mkFlight ''A'' 0 100, mkFlight ''B'' 1 200]
   \<and> filteredFlights
        (plan (run (showPlan (planOf twelveFlights) (initialApp 2025))
                 [Intersect True, FilterChange ''airline'' ''B'', Timeout]))
        (filters (run (showPlan (planOf twelveFlights) (initialApp 2025))
                 [Intersect True, FilterChange ''airline'' ''B'', Timeout]))
     = [mkFlight ''B'' 1 200]
   \<and> \<not> prefix
        (displayedFlights (run (showPlan (planOf twelveFlights) (initialApp 2025))
           [Intersect True, FilterChange ''airline'' ''B'', Timeout]))
        (filteredFlights
           (plan (run (showPlan (planOf twelveFlights) (initialApp 2025))
                    [Intersect True, FilterChange ''airline'' ''B'', Timeout]))
           (filters (run (showPlan (planOf twelveFlights) (initialApp 2025))
                    [Intersect True, FilterChange ''airline'' ''B'', Timeout])))"
  by code_simp

text \<open>
  C3 (as amended). A flight selection does not cancel a pending page load. From a state that
  displays the first \<open>n\<close> filtered flights with more to come and nothing pending, the last
  row coming into view starts the timer; a selection made before it fires leaves the timer,
  the loading flag, the displayed list, the plan and the filters as they are; when the timer
  fires, the displayed list is the first \<open>n + 10\<close> flights of the unchanged filtered list,
  the flag is cleared and nothing is pending. A filter change, in any state, sets the
  displayed list at once to the first page (at most 10) of the newly filtered list.
\<close>

theorem selection_does_not_cancel:
  assumes "displayedFlights s = take n (filteredFlights (plan s) (filters s))"
      and "n < length (filteredFlights (plan s) (filters s))"
      and "\<not> isLoadingMore s" and "timers s = []"
  shows "timers (run s [Intersect True, SelectFlight f])
           = [(displayedFlights s, filteredFlights (plan s) (filters s))]
         \<and> isLoadingMore (run s [Intersect True, SelectFlight f])
         \<and> displayedFlights (run s [Intersect True, SelectFlight f]) = displayedFlights s
         \<and> displayedFlights (run s [Intersect True, SelectFlight f, Timeout])
             = take (n + FLIGHTS_PER_PAGE) (filteredFlights (plan s) (filters s))
         \<and> filteredFlights (plan (run s [Intersect True, SelectFlight f, Timeout]))
                            (filters (run s [Intersect True, SelectFlight f, Timeout]))
             = filteredFlights (plan s) (filters s)
         \<and> isLoadingMore (run s [Intersect True, SelectFlight f, Timeout]) = False
         \<and> timers (run s [Intersect True, SelectFlight f, Timeout]) = []
         \<and> displayedFlights (handleFilterChange name' v s')
             = take FLIGHTS_PER_PAGE
                 (filteredFlights (plan s') (setFilter name' v (filters s')))"
proof -
  let ?F = "filteredFlights (plan s) (filters s)"
  let ?s1 = "observerCallback True s"
  let ?s2 = "handleSelectFlight f ?s1"
  let ?s3 = "timeoutCallback ?s2"
  have s1: "?s1 = s\<lparr>isLoadingMore := True, timers := [(displayedFlights s, ?F)]\<rparr>"
    using observer_starts_timer [OF assms(1-3)] assms(4) by simp
  have t2: "timers ?s2 = [(displayedFlights s, ?F)]" and l2: "isLoadingMore ?s2"
    and d2: "displayedFlights ?s2 = displayedFlights s"
    and p2: "plan ?s2 = plan s" and f2: "filters ?s2 = filters s"
    by (simp_all add: select_keeps_pagination s1)
  have mn: "min (length ?F) n = n"
    using assms(2) by simp
  have d3: "displayedFlights ?s3 = take (n + FLIGHTS_PER_PAGE) ?F"
    by (simp add: timeoutCallback_def t2 d2 slice_def Let_def assms(1) take_add mn)
  have rest3: "plan ?s3 = plan s \<and> filters ?s3 = filters s \<and> isLoadingMore ?s3 = False
               \<and> timers ?s3 = []"
    by (simp add: timeoutCallback_def t2 p2 f2 Let_def)
  have fc: "displayedFlights (handleFilterChange name' v s')
             = take FLIGHTS_PER_PAGE (filteredFlights (plan s') (setFilter name' v (filters s')))"
    by (simp add: handleFilterChange_def resetDisplayed_def slice_def)
  have r2: "run s [Intersect True, SelectFlight f] = ?s2"
    and r3: "run s [Intersect True, SelectFlight f, Timeout] = ?s3"
    by (simp_all add: run_def)
  show ?thesis
    unfolding r2 r3 using t2 l2 d2 d3 rest3 fc by simp
qed

text \<open>Twelve flights, ten displayed; flight B is selected while the page is pending.\<close>

theorem selection_does_not_cancel_witness:
  "displayedFlights (showPlan (planOf twelveFlights) (initialApp 2025))
     = take 10 (filteredFlights (plan (showPlan (planOf twelveFlights) (initialApp 2025)))
                                (filters (showPlan (planOf twelveFlights) (initialApp 2025))))
   \<and> 10 < length (filteredFlights (plan (showPlan (planOf twelveFlights) (initialApp 2025)))
                                  (filters (showPlan (planOf twelveFlights) (initialApp 2025))))
   \<and> isLoadingMore (showPlan (planOf twelveFlights) (initialApp 2025)) = False
   \<and> timers (showPlan (planOf twelveFlights) (initialApp 2025)) = []
   \<and> displayedFlights (run (showPlan (planOf twelveFlights) (initialApp 2025))
        [Intersect True, SelectFlight (mkFlight ''B'' 1 200), Timeout]) = twelveFlights
   \<and> isLoadingMore (run (showPlan (planOf twelveFlights) (initialApp 2025))
        [Intersect True, SelectFlight (mkFlight ''B'' 1 200), Timeout]) = False"
proof -
  let ?s = "showPlan (planOf twelveFlights) (initialApp 2025)"
  have h1: "displayedFlights ?s = take 10 (filteredFlights (plan ?s) (filters ?s))" by code_simp
  have h2: "10 < length (filteredFlights (plan ?s) (filters ?s))" by code_simp
  have h3: "\<not> isLoadingMore ?s" by code_simp
  have h4: "timers ?s = []" by code_simp
  have v: "take (10 + FLIGHTS_PER_PAGE) (filteredFlights (plan ?s) (filters ?s)) = twelveFlights"
    by code_simp
  from selection_does_not_cancel [OF h1 h2 h3 h4, of "mkFlight ''B'' 1 200"] h1 h2 h3 h4 v
  show ?thesis by simp
qed

text \<open>
  C3 as stated fails. A selection made while a page is pending cancels nothing: the timer is
  still there after it, and when it fires the displayed list grows from 10 to 12 flights.
  Nor does a filter change cancel it: after the stop filter is set to \<^verbatim>\<open>"1"\<close> the displayed
  list is the one matching flight, and the timer then appends two flights of the list
  filtered before, one of which has no stop.
\<close>

theorem pending_page_not_cancelled_counterexample:
  "length (timers (run (showPlan (planOf twelveFlights) (initialApp 2025))
        [Intersect True, SelectFlight (mkFlight ''A'' 0 100)])) = 1
   \<and> length (displayedFlights (run (showPlan (planOf twelveFlights) (initialApp 2025))
        [Intersect True, SelectFlight (mkFlight ''A'' 0 100)])) = 10
   \<and> length (displayedFlights (run (showPlan (planOf twelveFlights) (initialApp 2025))
        [Intersect True, SelectFlight (mkFlight ''A'' 0 100), Timeout])) = 12
   \<and> map stops (displayedFlights (run (showPlan (planOf twelveFlights) (initialApp 2025))
        [Intersect True, FilterChange ''stops'' ''1''])) = [1]
   \<and> length (timers (run (showPlan (planOf twelveFlights) (initialApp 2025))
        [Intersect True, FilterChange ''stops'' ''1''])) = 1
   \<and> map stops (displayedFlights (run (showPlan (planOf twelveFlights) (initialApp 2025))
        [Intersect True, FilterChange ''stops'' ''1'', Timeout])) = [1, 0, 1]"
  by code_simp

end
